theory Spec2Isabelle
  imports Main
begin

section \<open>JavaScript values used by the explorer\<close>

text \<open>
  Strings are byte lists (UTF-8), so the nerd-font glyph U+E0A2 of the readonly column is
  the three bytes EE 82 A2.

  Window geometry is whole numbers reported by the editor, but the factory guards against
  \<^verbatim>\<open>NaN\<close> explicitly (\<^verbatim>\<open>isNaN(config.height)\<close>), so a \<^verbatim>\<open>number\<close> is an integer or
  \<^verbatim>\<open>NaN\<close>. Arithmetic propagates \<^verbatim>\<open>NaN\<close>, every comparison with \<^verbatim>\<open>NaN\<close> is false.
  Fractions and infinities are not modelled.
\<close>

datatype jsnum = Num int | NaN

fun js_add :: "jsnum \<Rightarrow> jsnum \<Rightarrow> jsnum" where
  "js_add (Num a) (Num b) = Num (a + b)"
| "js_add _ _ = NaN"

fun js_sub :: "jsnum \<Rightarrow> jsnum \<Rightarrow> jsnum" where
  "js_sub (Num a) (Num b) = Num (a - b)"
| "js_sub _ _ = NaN"

fun js_neg :: "jsnum \<Rightarrow> jsnum" where
  "js_neg (Num a) = Num (- a)"
| "js_neg NaN = NaN"

fun js_lt :: "jsnum \<Rightarrow> jsnum \<Rightarrow> bool" where
  "js_lt (Num a) (Num b) = (a < b)"
| "js_lt _ _ = False"

fun js_le :: "jsnum \<Rightarrow> jsnum \<Rightarrow> bool" where
  "js_le (Num a) (Num b) = (a \<le> b)"
| "js_le _ _ = False"

fun js_gt :: "jsnum \<Rightarrow> jsnum \<Rightarrow> bool" where
  "js_gt (Num a) (Num b) = (a > b)"
| "js_gt _ _ = False"

fun js_ge :: "jsnum \<Rightarrow> jsnum \<Rightarrow> bool" where
  "js_ge (Num a) (Num b) = (a \<ge> b)"
| "js_ge _ _ = False"

text \<open>\<^verbatim>\<open>Math.min(a, b)\<close>: \<^verbatim>\<open>NaN\<close> as soon as one argument is.\<close>

fun Math_min :: "jsnum \<Rightarrow> jsnum \<Rightarrow> jsnum" where
  "Math_min (Num a) (Num b) = Num (min a b)"
| "Math_min _ _ = NaN"

fun isNaN :: "jsnum \<Rightarrow> bool" where
  "isNaN NaN = True"
| "isNaN (Num _) = False"

text \<open>Truthiness of a number, and \<^verbatim>\<open>a || b\<close> on numbers: \<^verbatim>\<open>0\<close> and \<^verbatim>\<open>NaN\<close> are falsy.\<close>

fun js_truthy :: "jsnum \<Rightarrow> bool" where
  "js_truthy (Num a) = (a \<noteq> 0)"
| "js_truthy NaN = False"

definition js_or :: "jsnum \<Rightarrow> jsnum \<Rightarrow> jsnum" where
  "js_or a b = (if js_truthy a then a else b)"

text \<open>Decimal rendering of a number inside a template literal.\<close>

function show_nat :: "nat \<Rightarrow> string" where
  "show_nat n =
     (if n < 10 then [''0123456789'' ! n]
      else show_nat (n div 10) @ [''0123456789'' ! (n mod 10)])"
  by pat_completeness auto
termination
  by (relation "measure (\<lambda>n. n)") auto

definition show_int :: "int \<Rightarrow> string" where
  "show_int i = (if i < 0 then ''-'' @ show_nat (nat (- i)) else show_nat (nat i))"

text \<open>
  Object values, as far as the list items need them: an object is the list of its own
  properties in enumeration order.
\<close>

datatype jsval = JUndefined | JString string | JObject "(string \<times> jsval) list"

datatype error = Error string | TypeError string

text \<open>
  \<^verbatim>\<open>v.k\<close>: a missing property reads as \<^verbatim>\<open>undefined\<close>, a property of \<^verbatim>\<open>undefined\<close>
  throws. (Only user properties are modelled; the built-in properties of strings are not.)
\<close>

fun js_get :: "jsval \<Rightarrow> string \<Rightarrow> error + jsval" where
  "js_get (JObject ps) k = Inr (case map_of ps k of None \<Rightarrow> JUndefined | Some v \<Rightarrow> v)"
| "js_get (JString s) k = Inr JUndefined"
| "js_get JUndefined k = Inl (TypeError (''Cannot read property '' @ k @ '' of undefined''))"

fun js_path :: "jsval \<Rightarrow> string list \<Rightarrow> error + jsval" where
  "js_path v [] = Inr v"
| "js_path v (k # ks) = (case js_get v k of Inl e \<Rightarrow> Inl e | Inr w \<Rightarrow> js_path w ks)"

text \<open>
  \<^verbatim>\<open>Object.keys(v)\<close>: the property names of an object in enumeration order, the index
  keys of a string (one per byte here, so exact for ASCII strings), and a
  \<^verbatim>\<open>TypeError\<close> for \<^verbatim>\<open>undefined\<close>.
\<close>

fun Object_keys :: "jsval \<Rightarrow> error + string list" where
  "Object_keys (JObject ps) = Inr (map fst ps)"
| "Object_keys (JString s) = Inr (map show_nat [0..<length s])"
| "Object_keys JUndefined = Inl (TypeError ''Cannot convert undefined or null to object'')"

text \<open>A value inside a template literal.\<close>

fun js_template :: "jsval \<Rightarrow> string" where
  "js_template (JString s) = s"
| "js_template JUndefined = ''undefined''"
| "js_template (JObject ps) = ''[object Object]''"

section \<open>Calls into the editor\<close>

text \<open>
  The plugin acts on the editor only through calls of the host API, of the coc.nvim
  library (\<^verbatim>\<open>FloatBuffer\<close>, \<^verbatim>\<open>snippetManager\<close>) and of its own logger and debouncer.
  Each such call is recorded, in program order, with the arguments the code passes.
  None of the callees is part of the sources; what they answer is an input.
\<close>

record Documentation =
  filetype :: string
  content :: string

record BufferHighlight =
  hlGroup :: string
  line :: int
  colStart :: int
  colEnd :: int

record WindowConfig =
  row :: jsnum
  col :: jsnum
  width :: jsnum
  height :: jsnum
  relative :: string

datatype call =
    Log string string
      \<comment> \<open>\<^verbatim>\<open>log(level, message)\<close>\<close>
  | onCursorMoved_cancel
      \<comment> \<open>\<^verbatim>\<open>this.onCursorMoved.cancel()\<close>\<close>
  | tokenSource_cancel
      \<comment> \<open>\<^verbatim>\<open>tokenSource.cancel()\<close>\<close>
  | disposeAll
  | pauseNotification
  | resumeNotification
  | command string
      \<comment> \<open>\<^verbatim>\<open>nvim.command(text)\<close>\<close>
  | get_float_mode bool bool bool
      \<comment> \<open>\<^verbatim>\<open>coc#util#get_float_mode\<close>\<close>
  | getDimension "Documentation list" jsnum jsnum
      \<comment> \<open>\<^verbatim>\<open>FloatBuffer.getDimension(docs, maxWidth, maxHeight)\<close>\<close>
  | winsaveview
  | nvim_win_get_config int
  | setDocuments "Documentation list" jsnum
      \<comment> \<open>\<^verbatim>\<open>floatBuffer.setDocuments(docs, width)\<close>\<close>
  | create_float_win int int WindowConfig
      \<comment> \<open>\<^verbatim>\<open>coc#util#create_float_win\<close> with \<^verbatim>\<open>[winid, bufnr, config]\<close>\<close>
  | setLines int "int option"
      \<comment> \<open>\<^verbatim>\<open>floatBuffer.setLines(bufnr)\<close> or \<^verbatim>\<open>floatBuffer.setLines(bufnr, winid)\<close>\<close>
  | addHighlight int BufferHighlight
      \<comment> \<open>\<^verbatim>\<open>nvim.createBuffer(bufnr).addHighlight(hl)\<close>\<close>
  | win_execute int string
  | close_win int
      \<comment> \<open>\<^verbatim>\<open>coc#util#close_win\<close>\<close>
  | selectCurrentPlaceholder bool
  | delay nat

fun is_create_float_win :: "call \<Rightarrow> bool" where
  "is_create_float_win (create_float_win w b c) = True"
| "is_create_float_win _ = False"

section \<open>Column renderers\<close>

text \<open>
  A row is built by \<^verbatim>\<open>row.add(content, {hl})\<close>; the row builder is not part of the
  sources, so a row is the list of the cells added to it, each with its highlight.
  The highlight tables \<^verbatim>\<open>fileHighlights\<close> and \<^verbatim>\<open>bufferHighlights\<close> are not part of
  the sources either: the highlight a column uses is a parameter.
\<close>

type_synonym 'hl row = "(string \<times> 'hl) list"

definition row_add :: "'hl row \<Rightarrow> string \<Rightarrow> 'hl \<Rightarrow> 'hl row" where
  "row_add r text hl = r @ [(text, hl)]"

text \<open>
  What a column's \<^verbatim>\<open>draw()\<close> returns. A property the object literal does not have is
  \<open>None\<close>.
\<close>

record ('node, 'hl) column_draw =
  labelOnly :: "bool option"
  labelVisible :: "('node \<Rightarrow> bool) option"
  drawNode :: "'hl row \<Rightarrow> 'node \<Rightarrow> 'hl row"

record FileNode =
  readonly :: bool

record BufferNode =
  fullpath :: string

text \<open>The glyph between the quotes of \<^verbatim>\<open>readonly.ts\<close>, line 13: U+E0A2.\<close>

definition readonly_icon :: string where
  "readonly_icon = [CHR 0xEE, CHR 0x82, CHR 0xA2]"

text \<open>
  \<^verbatim>\<open>readonly.ts\<close>: the \<^verbatim>\<open>draw()\<close> of the file source's child column \<^verbatim>\<open>readonly\<close>.
  \<open>config_get\<close> is \<^verbatim>\<open>source.config.get\<close>, read for its truth value;
  \<open>fileHighlights_readonly\<close> is \<^verbatim>\<open>fileHighlights.readonly\<close>.
\<close>

definition readonly_draw ::
  "(string \<Rightarrow> bool) \<Rightarrow> 'hl \<Rightarrow> ('a FileNode_scheme, 'hl) column_draw" where
  "readonly_draw config_get fileHighlights_readonly =
     (let enabledNerdFont = config_get ''icon.enableNerdfont'' in
      \<lparr> labelOnly = Some True,
        labelVisible = Some (\<lambda>node. readonly node),
        drawNode = (\<lambda>r node.
          if readonly node then
            row_add r
              (if readonly node then (if enabledNerdFont then readonly_icon else ''RO'') else [])
              fileHighlights_readonly
          else r) \<rparr>)"

text \<open>
  \<^verbatim>\<open>fullpath.ts\<close>: the \<^verbatim>\<open>draw()\<close> of the buffer source's child column \<^verbatim>\<open>fullpath\<close>.
\<close>

definition fullpath_draw :: "'hl \<Rightarrow> ('a BufferNode_scheme, 'hl) column_draw" where
  "fullpath_draw bufferHighlights_fullpath =
     \<lparr> labelOnly = None,
       labelVisible = None,
       drawNode = (\<lambda>r node. row_add r (fullpath node) bufferHighlights_fullpath) \<rparr>"

section \<open>The preset list\<close>

text \<open>
  \<^verbatim>\<open>PresetList\<close> extends coc.nvim's \<^verbatim>\<open>BasicList\<close>, which is not part of the sources;
  \<^verbatim>\<open>addAction\<close> is taken to register the action under its name. An action maps the
  selected item to the host calls it issues, or throws.
\<close>

record PresetList =
  name :: string
  defaultAction :: string
  description :: string
  actions :: "(string \<times> (jsval \<Rightarrow> error + call list)) list"

definition do_action :: "jsval \<Rightarrow> error + call list" where
  "do_action item =
     (case js_path item [''data'', ''name''] of
        Inl e \<Rightarrow> Inl e
      | Inr n \<Rightarrow> Inr [command (''CocCommand explorer --preset '' @ js_template n)])"

definition PresetList_new :: PresetList where
  "PresetList_new =
     \<lparr> name = ''explPresets'',
       defaultAction = ''do'',
       description = ''explorer presets'',
       actions = [(''do'', do_action)] \<rparr>"

text \<open>
  \<^verbatim>\<open>loadItems\<close>; its argument is the object \<^verbatim>\<open>getPresets(configLocal())\<close> resolves to
  (\<^verbatim>\<open>getPresets\<close> is not part of the sources).
\<close>

definition loadItems :: "jsval \<Rightarrow> error + jsval list" where
  "loadItems presets =
     (case Object_keys presets of
        Inl e \<Rightarrow> Inl e
      | Inr keys \<Rightarrow>
          Inr (map (\<lambda>name. JObject [(''label'', JString name),
                                    (''data'', JObject [(''name'', JString name)])]) keys))"

definition doHighlight :: "call list" where
  "doHighlight =
     [pauseNotification,
      command ''syntax match CocExplorerPreset /.*/'',
      command ''highlight default link CocExplorerPreset PreProc'',
      resumeNotification]"

section \<open>The floating window factory\<close>

subsection \<open>What the editor and the explorer answer\<close>

record Env =
  columns :: jsnum
  lines :: jsnum
  cmdheight :: jsnum

record Window =
  win_id :: int
  win_width :: jsnum

text \<open>
  Everything one call of a factory method reads from outside the class:
  \<^item> \<open>supportedFloat\<close>, \<open>isNvim\<close>, \<open>isVim\<close>, \<open>workspace_bufnr\<close>, \<open>insertMode\<close>: the
    \<^verbatim>\<open>util\<close> and \<^verbatim>\<open>workspace\<close> values of those names;
  \<^item> \<open>float_mode\<close>: the answer \<^verbatim>\<open>[mode, targetBufnr, win_position]\<close> of
    \<^verbatim>\<open>coc#util#get_float_mode\<close>, \<open>None\<close> when it is falsy;
  \<^item> \<open>isCancellationRequested n\<close>: what \<^verbatim>\<open>token.isCancellationRequested\<close> reads at source
    line \<open>n\<close> of \<^verbatim>\<open>floatingFactory3.ts\<close> (another call may have cancelled the token
    while this one awaited);
  \<^item> \<open>position\<close>, \<open>floatingPosition\<close>: \<^verbatim>\<open>explorer.args.value\<close> of these options;
    \<open>floating_border_enable\<close>: \<^verbatim>\<open>explorer.config.get('floating.border.enable')\<close>, read
    for its truth value; \<open>floatingBorderWin\<close>, \<open>explorer_win\<close>, \<open>currentLineIndex\<close>: the
    explorer's properties (\<open>None\<close> for no window);
  \<^item> \<open>FloatBuffer_getDimension\<close>: the static function of coc.nvim, answering
    \<open>(width, height)\<close>;
  \<^item> \<open>view_topline\<close>: \<^verbatim>\<open>topline\<close> of the \<^verbatim>\<open>winsaveview\<close> answer; \<open>win_config\<close>:
    \<open>(row, col)\<close> of the \<^verbatim>\<open>nvim_win_get_config\<close> answer;
  \<^item> \<open>create_float_win_res\<close>: \<^verbatim>\<open>[winid, bufnr]\<close> answered by
    \<^verbatim>\<open>coc#util#create_float_win\<close>, \<open>None\<close> when falsy;
  \<^item> \<open>resume_err\<close>: the second component of what \<^verbatim>\<open>resumeNotification\<close> answers inside
    \<^verbatim>\<open>createPopup\<close>, \<open>None\<close> when falsy.
  Host calls are taken to resolve; a rejected host promise is not modelled.
\<close>

record host =
  supportedFloat :: bool
  isNvim :: bool
  isVim :: bool
  workspace_bufnr :: int
  insertMode :: bool
  float_mode :: "(string \<times> int \<times> (jsnum \<times> jsnum)) option"
  isCancellationRequested :: "nat \<Rightarrow> bool"
  position :: string
  floatingPosition :: string
  floating_border_enable :: bool
  floatingBorderWin :: "Window option"
  explorer_win :: "Window option"
  currentLineIndex :: jsnum
  FloatBuffer_getDimension :: "Documentation list \<Rightarrow> jsnum \<Rightarrow> jsnum \<Rightarrow> jsnum \<times> jsnum"
  view_topline :: jsnum
  win_config :: "jsnum \<times> jsnum"
  create_float_win_res :: "(int \<times> int) option"
  resume_err :: "(string \<times> string \<times> string) option"

subsection \<open>The object\<close>

text \<open>
  The fields of the class. \<open>floatBuffer\<close>, \<open>onCursorMoved\<close> and \<open>tokenSource\<close> say whether
  the field holds an object (the constructor leaves the first two undefined when floating
  windows are not supported); \<open>targetBufnr\<close> is \<open>None\<close> until first assigned. \<open>trace\<close> is
  not a field of the class: it is the record of the calls issued so far.
\<close>

record FloatingFactory3 =
  env :: Env
  preferTop :: bool
  maxHeight :: jsnum
  maxWidth :: "jsnum option"
  autoHide :: bool
  targetBufnr :: "int option"
  winid :: int
  bufnr :: int
  floatBuffer :: bool
  onCursorMoved :: bool
  tokenSource :: bool
  alignTop :: bool
  pumAlignTop :: bool
  trace :: "call list"

definition emit :: "call \<Rightarrow> FloatingFactory3 \<Rightarrow> FloatingFactory3" where
  "emit c s = s\<lparr>trace := trace s @ [c]\<rparr>"

text \<open>The calls issued between two states of one run.\<close>

definition new_calls :: "FloatingFactory3 \<Rightarrow> FloatingFactory3 \<Rightarrow> call list" where
  "new_calls s s' = drop (length (trace s)) (trace s')"

definition message :: "error \<Rightarrow> string" where
  "message e = (case e of Error m \<Rightarrow> m | TypeError m \<Rightarrow> m)"

text \<open>
  The constructor, lines 40 to 83. The event subscriptions it makes when floating windows
  are supported are the three handlers further down.
\<close>

definition FloatingFactory3_new ::
  "host \<Rightarrow> Env \<Rightarrow> bool \<Rightarrow> jsnum \<Rightarrow> jsnum option \<Rightarrow> bool \<Rightarrow> FloatingFactory3" where
  "FloatingFactory3_new h e preferTop0 maxHeight0 maxWidth0 autoHide0 =
     \<lparr> env = e, preferTop = preferTop0, maxHeight = maxHeight0, maxWidth = maxWidth0,
       autoHide = autoHide0, targetBufnr = None, winid = 0, bufnr = 0,
       floatBuffer = supportedFloat h, onCursorMoved = supportedFloat h,
       tokenSource = False, alignTop = False, pumAlignTop = False, trace = [] \<rparr>"

definition factory_columns :: "FloatingFactory3 \<Rightarrow> jsnum" where
  "factory_columns s = columns (env s)"

definition factory_lines :: "FloatingFactory3 \<Rightarrow> jsnum" where
  "factory_lines s = js_sub (js_sub (lines (env s)) (cmdheight (env s))) (Num 1)"

definition cancel :: "FloatingFactory3 \<Rightarrow> FloatingFactory3" where
  "cancel s =
     (if tokenSource s then (emit tokenSource_cancel s)\<lparr>tokenSource := False\<rparr> else s)"

definition close :: "host \<Rightarrow> FloatingFactory3 \<Rightarrow> FloatingFactory3" where
  "close h s =
     (let winid0 = winid s;
          s1 = cancel s
      in if winid0 \<noteq> 0 then
           let s2 = emit pauseNotification s1;
               s3 = emit (close_win winid0) s2;
               s4 = (if isVim h then emit (command ''redraw'') s3 else s3);
               s5 = s4\<lparr>winid := 0\<rparr>
           in emit resumeNotification s5
         else s1)"

definition dispose :: "FloatingFactory3 \<Rightarrow> FloatingFactory3" where
  "dispose s =
     emit disposeAll (if tokenSource s then emit tokenSource_cancel s else s)"

subsection \<open>Event handlers\<close>

definition onBufEnter_handler :: "host \<Rightarrow> int \<Rightarrow> FloatingFactory3 \<Rightarrow> FloatingFactory3" where
  "onBufEnter_handler h b s =
     (if b = bufnr s \<or> Some b = targetBufnr s then s else close h s)"

definition onMenuPopupChanged_handler ::
  "host \<Rightarrow> jsnum \<Rightarrow> jsnum \<Rightarrow> FloatingFactory3 \<Rightarrow> FloatingFactory3" where
  "onMenuPopupChanged_handler h ev_row cursorline s =
     (let pumAlignTop0 = js_gt cursorline ev_row;
          s1 = s\<lparr>pumAlignTop := pumAlignTop0\<rparr>
      in if pumAlignTop0 = alignTop s1 then close h s1 else s1)"

definition onCursorMoved_handler :: "host \<Rightarrow> FloatingFactory3 \<Rightarrow> FloatingFactory3" where
  "onCursorMoved_handler h s =
     (if workspace_bufnr h = bufnr s then s
      else if autoHide s then close h s
      else if \<not> insertMode h \<or> Some (workspace_bufnr h) \<noteq> targetBufnr s then close h s
      else s)"

subsection \<open>Window geometry\<close>

text \<open>
  \<^verbatim>\<open>getWindowConfig\<close>, lines 112 to 196. The result is \<open>None\<close> where the source returns
  nothing. The local variables keep their names; a variable assigned twice gets a digit.
\<close>

definition getWindowConfig ::
  "host \<Rightarrow> Documentation list \<Rightarrow> jsnum \<times> jsnum \<Rightarrow> FloatingFactory3
     \<Rightarrow> WindowConfig option \<times> FloatingFactory3" where
  "getWindowConfig h docs win_position s =
     (let columns0 = factory_columns s;
          preferTop0 = preferTop s;
          lines0 = factory_lines s;
          alignTop0 = False;
          winRow = fst win_position;
          position0 = position h;
          isFloating = (position0 = ''floating'');
          enabledFloatingBorder = floating_border_enable h;
          containerWin =
            (if isFloating \<and> enabledFloatingBorder then floatingBorderWin h else explorer_win h)
      in case containerWin of
           None \<Rightarrow> (None, s)
         | Some cw \<Rightarrow>
             let containerWidth = win_width cw;
                 maxWidth0 = js_sub (js_sub columns0 containerWidth) (Num 1);
                 maxHeight0 = (if alignTop0 then winRow else js_sub (js_sub lines0 winRow) (Num 1));
                 maxHeight1 = Math_min maxHeight0 (js_or (maxHeight s) lines0);
                 s1 = emit (getDimension docs maxWidth0 maxHeight1) s;
                 previewWidth = fst (FloatBuffer_getDimension h docs maxWidth0 maxHeight1);
                 previewHeight = snd (FloatBuffer_getDimension h docs maxWidth0 maxHeight1);
                 alignTop1 =
                   (if \<not> preferTop0 then
                      (if js_lt (js_sub lines0 winRow) previewHeight \<and> js_gt winRow previewHeight
                       then True else alignTop0)
                    else
                      (if js_ge winRow previewHeight \<or> js_ge winRow (js_sub lines0 winRow)
                       then True else alignTop0));
                 s2 = s1\<lparr>alignTop := alignTop1\<rparr>;
                 explorerLineIndex = currentLineIndex h;
                 s3 = emit winsaveview s2;
                 col0 = Num 0;
                 row0 = js_add (js_add (js_sub explorerLineIndex (view_topline h)) (Num 1))
                          (if alignTop1 then js_add (js_neg previewHeight) (Num 1) else Num 0)
             in if position0 = ''left'' then
                  (Some \<lparr> row = row0, col = containerWidth, width = previewWidth,
                          height = previewHeight, relative = ''editor'' \<rparr>, s3)
                else if position0 = ''right'' then
                  (Some \<lparr> row = row0, col = js_sub (js_sub columns0 previewWidth) containerWidth,
                          width = previewWidth, height = previewHeight, relative = ''editor'' \<rparr>, s3)
                else if position0 = ''floating'' then
                  let s4 = emit (nvim_win_get_config (win_id cw)) s3;
                      floatingRow = fst (win_config h);
                      floatingCol = snd (win_config h);
                      floatingPosition0 = floatingPosition h;
                      row1 = js_add row0 floatingRow
                  in if floatingPosition0 = ''left-center'' then
                       (Some \<lparr> row = row1, col = js_add floatingCol containerWidth,
                               width = previewWidth, height = previewHeight,
                               relative = ''editor'' \<rparr>, s4)
                     else if floatingPosition0 = ''right-center'' then
                       (Some \<lparr> row = row1, col = js_sub floatingCol previewWidth,
                               width = previewWidth, height = previewHeight,
                               relative = ''editor'' \<rparr>, s4)
                     else (None, s4)
                else
                  (Some \<lparr> row = row0, col = col0, width = previewWidth,
                          height = previewHeight, relative = ''editor'' \<rparr>, s3))"

subsection \<open>Creating the popup\<close>

text \<open>
  Lines 268 to 303 of \<^verbatim>\<open>createPopup\<close>: the window exists, fill and show it.
  \<open>alignTop0\<close> is the value \<^verbatim>\<open>createPopup\<close> read from the object when it started.
  These lines run only after \<^verbatim>\<open>floatBuffer.setDocuments\<close> went through, so
  \<^verbatim>\<open>this.floatBuffer\<close> is defined in them.
\<close>

definition createPopup_fill ::
  "host \<Rightarrow> Documentation list \<Rightarrow> BufferHighlight list \<Rightarrow> bool \<Rightarrow> string \<Rightarrow> int \<times> int
     \<Rightarrow> FloatingFactory3 \<Rightarrow> (error + unit) \<times> FloatingFactory3" where
  "createPopup_fill h docs highlights alignTop0 mode res s =
     (let winid0 = fst res;
          bufnr0 = snd res;
          s1 = s\<lparr>winid := winid0, bufnr := bufnr0\<rparr>;
          showBottom = (alignTop0 \<and> length docs > 1);
          s2 = emit pauseNotification s1;
          s3 =
            (if isNvim h then
               let t1 = emit (command (''noa call win_gotoid('' @ show_int (winid s2) @ '')'')) s2;
                   t2 = emit (setLines bufnr0 None) t1;
                   t3 = fold (\<lambda>hl. emit (addHighlight (bufnr t2) hl)) highlights t2;
                   t4 = emit (command (''noa normal! '' @ (if showBottom then ''G'' else ''gg'') @ ''0'')) t3
               in emit (command ''noa wincmd p'') t4
             else
               let t1 = emit (setLines bufnr0 (Some winid0)) s2;
                   t2 = fold (\<lambda>hl. emit (addHighlight (bufnr t1) hl)) highlights t1;
                   t3 = emit (win_execute winid0
                          (''noa normal! '' @ (if showBottom then ''G'' else ''gg'') @ ''0'')) t2
               in emit (command ''redraw'') t3);
          s4 = emit resumeNotification s3
      in case resume_err h of
           Some err \<Rightarrow>
             (Inl (Error (''Error on '' @ fst err @ '': '' @ fst (snd err) @ '' - '' @ snd (snd err))),
              s4)
         | None \<Rightarrow>
             let s5 =
                   (if mode = ''s'' \<and> \<not> isCancellationRequested h 299 then
                      emit (delay 50) (emit (selectCurrentPlaceholder False) s4)
                    else s4)
             in if \<not> onCursorMoved s5 then
                  (Inl (TypeError ''Cannot read property cancel of undefined''), s5)
                else (Inr (), emit onCursorMoved_cancel s5))"

text \<open>\<^verbatim>\<open>createPopup\<close>, lines 223 to 304.\<close>

definition createPopup ::
  "host \<Rightarrow> Documentation list \<Rightarrow> BufferHighlight list \<Rightarrow> bool \<Rightarrow> FloatingFactory3
     \<Rightarrow> (error + unit) \<times> FloatingFactory3" where
  "createPopup h docs highlights allowSelection s =
     (let s1 = s\<lparr>tokenSource := True\<rparr>;
          alignTop0 = alignTop s1;
          pumAlignTop0 = pumAlignTop s1;
          floatBuffer0 = floatBuffer s1;
          s2 = emit (get_float_mode allowSelection alignTop0 pumAlignTop0) s1
      in case float_mode h of
           None \<Rightarrow> (Inr (), s2)
         | Some arr \<Rightarrow>
             if isCancellationRequested h 237 then (Inr (), s2)
             else if docs = [] \<or> list_all (\<lambda>d. length (content d) = 0) docs then
               (Inr (), close h s2)
             else
               let mode = fst arr;
                   targetBufnr0 = fst (snd arr);
                   win_position = snd (snd arr);
                   s3 = s2\<lparr>targetBufnr := Some targetBufnr0\<rparr>
               in (case getWindowConfig h docs win_position s3 of
                    (None, s4) \<Rightarrow> (Inr (), s4)
                  | (Some config, s4) \<Rightarrow>
                      if js_le (width config) (Num 0) \<or> js_le (height config) (Num 0)
                         \<or> isNaN (height config)
                      then (Inr (), close h s4)
                      else if \<not> floatBuffer0 then
                        (Inl (TypeError ''Cannot read property setDocuments of undefined''), s4)
                      else
                        let s5 = emit (setDocuments docs (width config)) s4 in
                        if isCancellationRequested h 256 then (Inr (), s5)
                        else
                          let s6 = emit (create_float_win (winid s5) (bufnr s5) config) s5 in
                          (case create_float_win_res h of
                             None \<Rightarrow> (Inr (), s6)
                           | Some res \<Rightarrow>
                               if isCancellationRequested h 265 then (Inr (), s6)
                               else createPopup_fill h docs highlights alignTop0 mode res s6)))"

text \<open>\<^verbatim>\<open>create\<close>, lines 198 to 221.\<close>

definition create ::
  "host \<Rightarrow> Documentation list \<Rightarrow> BufferHighlight list \<Rightarrow> bool \<Rightarrow> FloatingFactory3
     \<Rightarrow> (error + unit) \<times> FloatingFactory3" where
  "create h docs highlights allowSelection s =
     (if \<not> supportedFloat h then
        (Inr (), emit (Log ''error'' ''Floating window & textprop not supported!'') s)
      else if \<not> onCursorMoved s then
        (Inl (TypeError ''Cannot read property cancel of undefined''), s)
      else
        let s1 = emit onCursorMoved_cancel s in
        if docs = [] \<or> list_all (\<lambda>d. length (content d) = 0) docs then
          (Inr (), close h s1)
        else
          let s2 = cancel s1 in
          case createPopup h docs highlights allowSelection s2 of
            (Inr u, s3) \<Rightarrow> (Inr (), s3)
          | (Inl e, s3) \<Rightarrow>
              (Inr (), close h (emit (Log ''error'' (''Error on create popup: '' @ message e)) s3)))"

subsection \<open>Reachable states\<close>

text \<open>
  Whether floating windows are supported is fixed for an editor session. In every state a
  session can reach from the constructor, \<open>floatBuffer\<close> and \<open>onCursorMoved\<close> are set exactly
  when they are supported, and without support no window has been opened. (The lemmas
  \<open>factory_inv_new\<close> and \<open>factory_inv_create\<close> to \<open>factory_inv_dispose\<close> below show it.)
\<close>

definition factory_inv :: "bool \<Rightarrow> FloatingFactory3 \<Rightarrow> bool" where
  "factory_inv supported s =
     (floatBuffer s = supported \<and> onCursorMoved s = supported \<and> (supported \<or> winid s = 0))"

fun is_getDimension :: "call \<Rightarrow> bool" where
  "is_getDimension (getDimension docs w h) = True"
| "is_getDimension _ = False"

subsection \<open>A concrete session\<close>

text \<open>
  An editor of 120 columns and 40 lines with the explorer in a split of width 40 on the
  left, and a factory whose popup (window 1001, buffer 7) is open. The theorems below are
  instantiated on it.
\<close>

definition example_env :: Env where
  "example_env = \<lparr> columns = Num 120, lines = Num 40, cmdheight = Num 1 \<rparr>"

definition example_host :: host where
  "example_host =
     \<lparr> supportedFloat = True, isNvim = True, isVim = False, workspace_bufnr = 1,
       insertMode = False,
       float_mode = Some (''n'', 3, (Num 30, Num 0)),
       isCancellationRequested = (\<lambda>n. False),
       position = ''left'', floatingPosition = ''left-center'',
       floating_border_enable = False, floatingBorderWin = None,
       explorer_win = Some \<lparr> win_id = 1000, win_width = Num 40 \<rparr>,
       currentLineIndex = Num 5,
       FloatBuffer_getDimension = (\<lambda>docs w h. (Num 20, Num 12)),
       view_topline = Num 1, win_config = (Num 0, Num 0),
       create_float_win_res = Some (1001, 7), resume_err = None \<rparr>"

definition example_factory :: FloatingFactory3 where
  "example_factory =
     (FloatingFactory3_new example_host example_env False (Num 999) None True)
       \<lparr> winid := 1001, bufnr := 7 \<rparr>"

definition example_docs :: "Documentation list" where
  "example_docs = [\<lparr> filetype = ''markdown'', content = ''README'' \<rparr>]"

section \<open>Properties of the column renderers\<close>

text \<open>
  C4. The \<^verbatim>\<open>readonly\<close> column of the file source is label-only, its \<^verbatim>\<open>labelVisible\<close>
  answers \<^verbatim>\<open>node.readonly\<close>, and \<^verbatim>\<open>drawNode\<close> adds a cell exactly when the node is
  readonly: one cell with the readonly highlight, holding the nerd-font glyph when
  \<^verbatim>\<open>icon.enableNerdfont\<close> is enabled and \<^verbatim>\<open>RO\<close> otherwise.
\<close>

theorem readonly_column_marker:
  "labelOnly (readonly_draw config_get hl) = Some True
   \<and> map_option (\<lambda>visible. visible node) (labelVisible (readonly_draw config_get hl))
       = Some (readonly node)
   \<and> drawNode (readonly_draw config_get hl) r node =
       (if readonly node
        then r @ [(if config_get ''icon.enableNerdfont''
                   then [CHR 0xEE, CHR 0x82, CHR 0xA2] else ''RO'', hl)]
        else r)
   \<and> (drawNode (readonly_draw config_get hl) r node \<noteq> r) = readonly node"
  by (simp add: readonly_draw_def row_add_def readonly_icon_def)

theorem readonly_column_marker_witness:
  "drawNode (readonly_draw (\<lambda>k. k = ''icon.enableNerdfont'') ''Comment'')
     [(''main.ts'', ''Normal'')] \<lparr> readonly = True \<rparr>
     = [(''main.ts'', ''Normal''), ([CHR 0xEE, CHR 0x82, CHR 0xA2], ''Comment'')]
   \<and> drawNode (readonly_draw (\<lambda>k. False) ''Comment'')
     [(''main.ts'', ''Normal'')] \<lparr> readonly = True \<rparr>
     = [(''main.ts'', ''Normal''), (''RO'', ''Comment'')]
   \<and> drawNode (readonly_draw (\<lambda>k. False) ''Comment'')
     [(''main.ts'', ''Normal'')] \<lparr> readonly = False \<rparr>
     = [(''main.ts'', ''Normal'')]"
  using readonly_column_marker [of "\<lambda>k. k = ''icon.enableNerdfont''" "''Comment''"
      "\<lparr> readonly = True \<rparr>" "[(''main.ts'', ''Normal'')]"]
    readonly_column_marker [of "\<lambda>k. False" "''Comment''"
      "\<lparr> readonly = True \<rparr>" "[(''main.ts'', ''Normal'')]"]
    readonly_column_marker [of "\<lambda>k. False" "''Comment''"
      "\<lparr> readonly = False \<rparr>" "[(''main.ts'', ''Normal'')]"]
  by (simp add: readonly_draw_def row_add_def)

text \<open>
  C5. The \<^verbatim>\<open>fullpath\<close> column of the buffer source adds, for every node and whatever the
  row holds, exactly one cell: the node's \<^verbatim>\<open>fullpath\<close> with the
  \<^verbatim>\<open>bufferHighlights.fullpath\<close> highlight.
\<close>

theorem fullpath_column_appends:
  "drawNode (fullpath_draw hl) r node = r @ [(fullpath node, hl)]"
  by (simp add: fullpath_draw_def row_add_def)

theorem fullpath_column_appends_witness:
  "drawNode (fullpath_draw ''Comment'') [(''3'', ''Number'')] \<lparr> fullpath = ''/src/a.ts'' \<rparr>
     = [(''3'', ''Number''), (''/src/a.ts'', ''Comment'')]"
  using fullpath_column_appends [of "''Comment''" "[(''3'', ''Number'')]"
      "\<lparr> fullpath = ''/src/a.ts'' \<rparr>"]
  by simp

section \<open>Properties of the preset list\<close>

text \<open>
  C2. For every presets object, \<^verbatim>\<open>loadItems\<close> returns one item per key, in the key order
  of the object; each item has the properties \<^verbatim>\<open>label\<close> and \<^verbatim>\<open>data\<close> and no other,
  \<^verbatim>\<open>label\<close> is the key, and \<^verbatim>\<open>data\<close> has the property \<^verbatim>\<open>name\<close> and no other, which is
  the key again.
\<close>

theorem loadItems_one_item_per_key:
  "case loadItems (JObject ps) of
     Inl e \<Rightarrow> False
   | Inr items \<Rightarrow>
       length items = length ps
     \<and> map (\<lambda>item. js_get item ''label'') items = map (\<lambda>k. Inr (JString k)) (map fst ps)
     \<and> map (\<lambda>item. js_path item [''data'', ''name'']) items
         = map (\<lambda>k. Inr (JString k)) (map fst ps)
     \<and> map Object_keys items = map (\<lambda>k. Inr [''label'', ''data'']) (map fst ps)
     \<and> map (\<lambda>item. case js_get item ''data'' of Inl e \<Rightarrow> Inl e | Inr d \<Rightarrow> Object_keys d) items
         = map (\<lambda>k. Inr [''name'']) (map fst ps)"
  by (simp add: loadItems_def comp_def)

theorem loadItems_one_item_per_key_witness:
  "loadItems (JObject [(''dev'', JUndefined), (''floating'', JObject [])])
     = Inr [JObject [(''label'', JString ''dev''), (''data'', JObject [(''name'', JString ''dev'')])],
            JObject [(''label'', JString ''floating''),
                     (''data'', JObject [(''name'', JString ''floating'')])]]"
  using loadItems_one_item_per_key [of "[(''dev'', JUndefined), (''floating'', JObject [])]"]
  by (simp add: loadItems_def)

text \<open>
  C3. The default action of the preset list is \<^verbatim>\<open>do\<close>, and the action registered under
  that name, run on an item whose \<^verbatim>\<open>data.name\<close> is the string \<open>n\<close>, issues exactly one
  host call: the command \<^verbatim>\<open>CocCommand explorer --preset\<close> followed by a space and \<open>n\<close>.
\<close>

theorem preset_do_action_command:
  assumes "js_path item [''data'', ''name''] = Inr (JString n)"
  shows "defaultAction PresetList_new = ''do''
     \<and> map_option (\<lambda>act. act item)
          (map_of (actions PresetList_new) (defaultAction PresetList_new))
         = Some (Inr [command (''CocCommand explorer --preset '' @ n)])"
  using assms by (simp add: PresetList_new_def do_action_def)

theorem preset_do_action_command_witness:
  "js_path (JObject [(''label'', JString ''dev''), (''data'', JObject [(''name'', JString ''dev'')])])
      [''data'', ''name''] = Inr (JString ''dev'')
   \<and> map_option
        (\<lambda>act. act (JObject [(''label'', JString ''dev''),
                              (''data'', JObject [(''name'', JString ''dev'')])]))
        (map_of (actions PresetList_new) (defaultAction PresetList_new))
       = Some (Inr [command ''CocCommand explorer --preset dev''])"
proof -
  have p: "js_path (JObject [(''label'', JString ''dev''),
                            (''data'', JObject [(''name'', JString ''dev'')])])
             [''data'', ''name''] = Inr (JString ''dev'')"
    by simp
  show ?thesis
    using p preset_do_action_command [OF p] by (simp add: PresetList_new_def)
qed

section \<open>Properties of the floating window factory\<close>

subsection \<open>What the building blocks do to the object\<close>

lemma emit_fields:
  "winid (emit c s) = winid s" "bufnr (emit c s) = bufnr s"
  "floatBuffer (emit c s) = floatBuffer s" "onCursorMoved (emit c s) = onCursorMoved s"
  "tokenSource (emit c s) = tokenSource s" "alignTop (emit c s) = alignTop s"
  "pumAlignTop (emit c s) = pumAlignTop s" "env (emit c s) = env s"
  "preferTop (emit c s) = preferTop s" "maxHeight (emit c s) = maxHeight s"
  "targetBufnr (emit c s) = targetBufnr s" "autoHide (emit c s) = autoHide s"
  by (simp_all add: emit_def)

lemma fold_emit_fields:
  "winid (fold (\<lambda>x. emit (f x)) xs t) = winid t"
  "floatBuffer (fold (\<lambda>x. emit (f x)) xs t) = floatBuffer t"
  "onCursorMoved (fold (\<lambda>x. emit (f x)) xs t) = onCursorMoved t"
  by (induction xs arbitrary: t) (simp_all add: emit_fields)

lemma cancel_fields:
  "winid (cancel s) = winid s" "floatBuffer (cancel s) = floatBuffer s"
  "onCursorMoved (cancel s) = onCursorMoved s"
  by (simp_all add: cancel_def emit_def)

text \<open>
  \<^verbatim>\<open>close\<close> cancels a pending token and, when a window is open, closes it between
  \<^verbatim>\<open>pauseNotification\<close> and \<^verbatim>\<open>resumeNotification\<close>; afterwards no window is open.
\<close>

lemma close_trace:
  "trace (close h s) =
     trace s @ (if tokenSource s then [tokenSource_cancel] else [])
       @ (if winid s \<noteq> 0
          then [pauseNotification, close_win (winid s)]
               @ (if isVim h then [command ''redraw''] else []) @ [resumeNotification]
          else [])"
  by (simp add: close_def cancel_def emit_def Let_def)

lemma close_fields:
  "floatBuffer (close h s) = floatBuffer s" "onCursorMoved (close h s) = onCursorMoved s"
  "tokenSource (close h s) = False"
  by (simp_all add: close_def cancel_def emit_def Let_def)

lemma close_winid: "winid (close h s) = 0"
  by (simp add: close_def cancel_def emit_def Let_def)

lemma close_new_calls:
  "trace s1 = trace s @ cs \<Longrightarrow> filter is_create_float_win cs = [] \<Longrightarrow>
   filter is_create_float_win (new_calls s (close h s1)) = []
   \<and> (winid s1 \<noteq> 0 \<longrightarrow> close_win (winid s1) \<in> set (new_calls s (close h s1)))"
  by (simp add: new_calls_def close_trace)

lemma getWindowConfig_fields:
  "winid (snd (getWindowConfig h docs wp s)) = winid s"
  "bufnr (snd (getWindowConfig h docs wp s)) = bufnr s"
  "floatBuffer (snd (getWindowConfig h docs wp s)) = floatBuffer s"
  "onCursorMoved (snd (getWindowConfig h docs wp s)) = onCursorMoved s"
  "tokenSource (snd (getWindowConfig h docs wp s)) = tokenSource s"
  by (simp_all add: getWindowConfig_def Let_def emit_def split: option.splits)

lemma getWindowConfig_result:
  assumes "getWindowConfig h docs wp s = (r, s')"
  shows "winid s' = winid s" "floatBuffer s' = floatBuffer s" "onCursorMoved s' = onCursorMoved s"
  using assms getWindowConfig_fields [of h docs wp s] by simp_all

lemma getWindowConfig_trace:
  "\<exists>cs. trace (snd (getWindowConfig h docs wp s)) = trace s @ cs
        \<and> filter is_create_float_win cs = []"
  by (simp add: getWindowConfig_def Let_def emit_def split: option.splits)

text \<open>
  The window configuration depends on the object only through the editor dimensions,
  \<open>preferTop\<close> and \<open>maxHeight\<close>.
\<close>

lemma getWindowConfig_fst_cong:
  "env s' = env s \<Longrightarrow> preferTop s' = preferTop s \<Longrightarrow> maxHeight s' = maxHeight s \<Longrightarrow>
   fst (getWindowConfig h docs wp s') = fst (getWindowConfig h docs wp s)"
  by (simp add: getWindowConfig_def Let_def factory_lines_def factory_columns_def emit_def
      split: option.splits)

subsection \<open>Window geometry\<close>

text \<open>
  The three theorems on \<^verbatim>\<open>getWindowConfig\<close> are about calls that get past its first guard:
  the container window (the border window of a floating explorer with borders, the explorer
  window otherwise) exists. Without it the method returns at once, computes no dimension
  and leaves \<^verbatim>\<open>this.alignTop\<close> alone.
\<close>

lemma getWindowConfig_no_container:
  "(if position h = ''floating'' \<and> floating_border_enable h
    then floatingBorderWin h else explorer_win h) = None \<Longrightarrow>
   getWindowConfig h docs win_position s = (None, s)"
  by (simp add: getWindowConfig_def Let_def)

text \<open>
  C1. With \<open>lines = env.lines - env.cmdheight - 1\<close>, \<open>winRow\<close> the first component of the
  window position and \<open>previewHeight\<close> the height \<^verbatim>\<open>FloatBuffer.getDimension\<close> answers,
  \<^verbatim>\<open>getWindowConfig\<close> leaves in \<^verbatim>\<open>this.alignTop\<close>: when \<open>preferTop\<close> is false, the truth
  value of \<open>lines - winRow < previewHeight\<close> and \<open>winRow > previewHeight\<close>; when \<open>preferTop\<close>
  is true, the truth value of \<open>winRow \<ge> previewHeight\<close> or \<open>winRow \<ge> lines - winRow\<close>.
\<close>

theorem alignTop_decision:
  fixes h :: host and s :: FloatingFactory3 and docs :: "Documentation list"
    and win_position :: "jsnum \<times> jsnum" and containerWin :: Window
  assumes container:
    "(if position h = ''floating'' \<and> floating_border_enable h
      then floatingBorderWin h else explorer_win h) = Some containerWin"
  defines "lines0 \<equiv> js_sub (js_sub (lines (env s)) (cmdheight (env s))) (Num 1)"
  defines "winRow \<equiv> fst win_position"
  defines "previewHeight \<equiv>
    snd (FloatBuffer_getDimension h docs
          (js_sub (js_sub (columns (env s)) (win_width containerWin)) (Num 1))
          (Math_min (js_sub (js_sub lines0 winRow) (Num 1)) (js_or (maxHeight s) lines0)))"
  shows "alignTop (snd (getWindowConfig h docs win_position s)) =
           (if preferTop s
            then js_ge winRow previewHeight \<or> js_ge winRow (js_sub lines0 winRow)
            else js_lt (js_sub lines0 winRow) previewHeight \<and> js_gt winRow previewHeight)"
  using container
  unfolding lines0_def winRow_def previewHeight_def
  by (simp add: getWindowConfig_def factory_lines_def factory_columns_def emit_def Let_def)

theorem alignTop_decision_witness:
  "(if position example_host = ''floating'' \<and> floating_border_enable example_host
    then floatingBorderWin example_host else explorer_win example_host)
     = Some \<lparr> win_id = 1000, win_width = Num 40 \<rparr>
   \<and> alignTop (snd (getWindowConfig example_host example_docs (Num 30, Num 0) example_factory))
       = True
   \<and> alignTop (snd (getWindowConfig example_host example_docs (Num 10, Num 0) example_factory))
       = False"
  using alignTop_decision [where h = example_host and s = example_factory
      and docs = example_docs and win_position = "(Num 30, Num 0)"
      and containerWin = "\<lparr> win_id = 1000, win_width = Num 40 \<rparr>"]
    alignTop_decision [where h = example_host and s = example_factory
      and docs = example_docs and win_position = "(Num 10, Num 0)"
      and containerWin = "\<lparr> win_id = 1000, win_width = Num 40 \<rparr>"]
  by (simp add: example_host_def example_factory_def example_env_def FloatingFactory3_new_def)

text \<open>
  C6. The column of the configuration \<^verbatim>\<open>getWindowConfig\<close> returns: \<open>containerWidth\<close> for
  position \<^verbatim>\<open>left\<close>; \<open>columns - previewWidth - containerWidth\<close> for \<^verbatim>\<open>right\<close>; for
  \<^verbatim>\<open>floating\<close>, \<open>floatingCol + containerWidth\<close> when the floating position is
  \<^verbatim>\<open>left-center\<close>, \<open>floatingCol - previewWidth\<close> when it is \<^verbatim>\<open>right-center\<close>, and no
  configuration at all for any other floating position; \<open>0\<close> for every other position.
\<close>

theorem preview_column_placement:
  fixes h :: host and s :: FloatingFactory3 and docs :: "Documentation list"
    and win_position :: "jsnum \<times> jsnum" and containerWin :: Window
  assumes container:
    "(if position h = ''floating'' \<and> floating_border_enable h
      then floatingBorderWin h else explorer_win h) = Some containerWin"
  defines "lines0 \<equiv> js_sub (js_sub (lines (env s)) (cmdheight (env s))) (Num 1)"
  defines "containerWidth \<equiv> win_width containerWin"
  defines "previewWidth \<equiv>
    fst (FloatBuffer_getDimension h docs
          (js_sub (js_sub (columns (env s)) containerWidth) (Num 1))
          (Math_min (js_sub (js_sub lines0 (fst win_position)) (Num 1))
                    (js_or (maxHeight s) lines0)))"
  defines "floatingCol \<equiv> snd (win_config h)"
  shows "map_option col (fst (getWindowConfig h docs win_position s)) =
           (if position h = ''left'' then Some containerWidth
            else if position h = ''right''
              then Some (js_sub (js_sub (columns (env s)) previewWidth) containerWidth)
            else if position h = ''floating'' then
              (if floatingPosition h = ''left-center''
                 then Some (js_add floatingCol containerWidth)
               else if floatingPosition h = ''right-center''
                 then Some (js_sub floatingCol previewWidth)
               else None)
            else Some (Num 0))"
  using container
  unfolding lines0_def containerWidth_def previewWidth_def floatingCol_def
  by (simp add: getWindowConfig_def factory_lines_def factory_columns_def emit_def Let_def)

theorem preview_column_placement_witness:
  "(if position example_host = ''floating'' \<and> floating_border_enable example_host
    then floatingBorderWin example_host else explorer_win example_host)
     = Some \<lparr> win_id = 1000, win_width = Num 40 \<rparr>
   \<and> map_option col
        (fst (getWindowConfig example_host example_docs (Num 30, Num 0) example_factory))
       = Some (Num 40)
   \<and> (if position (example_host\<lparr>position := ''right''\<rparr>) = ''floating''
          \<and> floating_border_enable (example_host\<lparr>position := ''right''\<rparr>)
       then floatingBorderWin (example_host\<lparr>position := ''right''\<rparr>)
       else explorer_win (example_host\<lparr>position := ''right''\<rparr>))
     = Some \<lparr> win_id = 1000, win_width = Num 40 \<rparr>
   \<and> map_option col
        (fst (getWindowConfig (example_host\<lparr>position := ''right''\<rparr>) example_docs
                (Num 30, Num 0) example_factory))
       = Some (Num 60)"
  using preview_column_placement [where h = example_host and s = example_factory
      and docs = example_docs and win_position = "(Num 30, Num 0)"
      and containerWin = "\<lparr> win_id = 1000, win_width = Num 40 \<rparr>"]
    preview_column_placement [where h = "example_host\<lparr>position := ''right''\<rparr>"
      and s = example_factory
      and docs = example_docs and win_position = "(Num 30, Num 0)"
      and containerWin = "\<lparr> win_id = 1000, win_width = Num 40 \<rparr>"]
  by (simp add: example_host_def example_factory_def example_env_def FloatingFactory3_new_def)

text \<open>
  C10. \<^verbatim>\<open>getWindowConfig\<close> calls \<^verbatim>\<open>FloatBuffer.getDimension\<close> once, and the maximal height
  it passes is \<open>min (lines - winRow - 1) (this.maxHeight || lines)\<close> whatever \<open>preferTop\<close>
  and the stored \<open>alignTop\<close> are: the local \<open>alignTop\<close> is still false where the height is
  chosen, so \<open>winRow\<close> is never taken.
\<close>

theorem getDimension_maxHeight_argument:
  fixes h :: host and s :: FloatingFactory3 and docs :: "Documentation list"
    and win_position :: "jsnum \<times> jsnum" and containerWin :: Window
  assumes container:
    "(if position h = ''floating'' \<and> floating_border_enable h
      then floatingBorderWin h else explorer_win h) = Some containerWin"
  defines "lines0 \<equiv> js_sub (js_sub (lines (env s)) (cmdheight (env s))) (Num 1)"
  shows "filter is_getDimension (new_calls s (snd (getWindowConfig h docs win_position s))) =
           [getDimension docs
              (js_sub (js_sub (columns (env s)) (win_width containerWin)) (Num 1))
              (Math_min (js_sub (js_sub lines0 (fst win_position)) (Num 1))
                        (js_or (maxHeight s) lines0))]"
  using container
  unfolding lines0_def
  by (simp add: getWindowConfig_def factory_lines_def factory_columns_def emit_def Let_def
      new_calls_def)

theorem getDimension_maxHeight_argument_witness:
  "(if position example_host = ''floating'' \<and> floating_border_enable example_host
    then floatingBorderWin example_host else explorer_win example_host)
     = Some \<lparr> win_id = 1000, win_width = Num 40 \<rparr>
   \<and> filter is_getDimension
        (new_calls example_factory
           (snd (getWindowConfig example_host example_docs (Num 30, Num 0) example_factory)))
       = [getDimension example_docs (Num 79) (Num 7)]
   \<and> filter is_getDimension
        (new_calls (example_factory\<lparr>preferTop := True\<rparr>)
           (snd (getWindowConfig example_host example_docs (Num 30, Num 0)
                   (example_factory\<lparr>preferTop := True\<rparr>))))
       = [getDimension example_docs (Num 79) (Num 7)]"
  using getDimension_maxHeight_argument [where h = example_host and s = example_factory
      and docs = example_docs and win_position = "(Num 30, Num 0)"
      and containerWin = "\<lparr> win_id = 1000, win_width = Num 40 \<rparr>"]
    getDimension_maxHeight_argument [where h = example_host
      and s = "example_factory\<lparr>preferTop := True\<rparr>"
      and docs = example_docs and win_position = "(Num 30, Num 0)"
      and containerWin = "\<lparr> win_id = 1000, win_width = Num 40 \<rparr>"]
  by (simp add: example_host_def example_factory_def example_env_def FloatingFactory3_new_def
      js_or_def)

subsection \<open>The invariant of reachable states\<close>

lemma createPopup_fill_fields:
  "floatBuffer (snd (createPopup_fill h docs hls a m res s)) = floatBuffer s"
  "onCursorMoved (snd (createPopup_fill h docs hls a m res s)) = onCursorMoved s"
  by (simp_all add: createPopup_fill_def Let_def emit_fields fold_emit_fields
      split: option.splits)

lemma createPopup_fields:
  "floatBuffer (snd (createPopup h docs hls sel s)) = floatBuffer s
   \<and> onCursorMoved (snd (createPopup h docs hls sel s)) = onCursorMoved s"
  by (auto simp add: createPopup_def Let_def emit_fields close_fields createPopup_fill_fields
      split: option.splits prod.splits dest: getWindowConfig_result)

text \<open>
  Without a \<^verbatim>\<open>FloatBuffer\<close> the method throws before it asks the editor for a window.
\<close>

lemma createPopup_no_floatBuffer:
  "\<not> floatBuffer s \<Longrightarrow> winid s = 0 \<Longrightarrow> winid (snd (createPopup h docs hls sel s)) = 0"
  by (auto simp add: createPopup_def Let_def emit_fields close_winid
      split: option.splits prod.splits dest: getWindowConfig_result)

lemma factory_inv_new:
  "factory_inv (supportedFloat h) (FloatingFactory3_new h e p mh mw ah)"
  by (simp add: factory_inv_def FloatingFactory3_new_def)

lemma factory_inv_close: "factory_inv b s \<Longrightarrow> factory_inv b (close h s)"
  by (simp add: factory_inv_def close_fields close_winid)

lemma factory_inv_cancel: "factory_inv b s \<Longrightarrow> factory_inv b (cancel s)"
  by (simp add: factory_inv_def cancel_fields)

lemma factory_inv_emit: "factory_inv b s \<Longrightarrow> factory_inv b (emit c s)"
  by (simp add: factory_inv_def emit_fields)

lemma factory_inv_getWindowConfig:
  "factory_inv b s \<Longrightarrow> factory_inv b (snd (getWindowConfig h docs wp s))"
  by (simp add: factory_inv_def getWindowConfig_fields)

lemma factory_inv_createPopup:
  "factory_inv b s \<Longrightarrow> factory_inv b (snd (createPopup h docs hls sel s))"
  using createPopup_fields [of h docs hls sel s] createPopup_no_floatBuffer [of s h docs hls sel]
  by (auto simp add: factory_inv_def)

lemma factory_inv_create:
  "factory_inv b s \<Longrightarrow> factory_inv b (snd (create h docs hls sel s))"
  using factory_inv_createPopup [of b "cancel (emit onCursorMoved_cancel s)" h docs hls sel]
  by (auto simp add: create_def Let_def factory_inv_close factory_inv_cancel factory_inv_emit
      split: prod.splits sum.splits)

lemma factory_inv_onBufEnter:
  "factory_inv b s \<Longrightarrow> factory_inv b (onBufEnter_handler h n s)"
  by (simp add: onBufEnter_handler_def factory_inv_close)

lemma factory_inv_onMenuPopupChanged:
  "factory_inv b s \<Longrightarrow> factory_inv b (onMenuPopupChanged_handler h r c s)"
  by (simp add: onMenuPopupChanged_handler_def Let_def factory_inv_def close_fields close_winid)

lemma factory_inv_onCursorMoved:
  "factory_inv b s \<Longrightarrow> factory_inv b (onCursorMoved_handler h s)"
  by (simp add: onCursorMoved_handler_def factory_inv_close)

lemma factory_inv_dispose: "factory_inv b s \<Longrightarrow> factory_inv b (dispose s)"
  by (simp add: dispose_def factory_inv_emit)

text \<open>
  The popup path is live: on the example session, \<^verbatim>\<open>create\<close> with a document asks the
  editor for the window once.
\<close>

lemma create_example_opens_window:
  "filter is_create_float_win
     (new_calls example_factory (snd (create example_host example_docs [] False example_factory)))
   = [create_float_win 1001 7
        \<lparr> row = Num (- 6), col = Num 40, width = Num 20, height = Num 12,
          relative = ''editor'' \<rparr>]"
  by (simp add: create_def createPopup_def createPopup_fill_def getWindowConfig_def close_def
      cancel_def emit_def new_calls_def factory_lines_def factory_columns_def js_or_def Let_def
      example_host_def example_factory_def example_env_def example_docs_def
      FloatingFactory3_new_def)

subsection \<open>Guards of the popup\<close>

text \<open>
  C9. A call of \<^verbatim>\<open>createPopup\<close> that reaches the window configuration (the editor
  answered the float mode, the token is not cancelled) and for which the configuration
  \<^verbatim>\<open>getWindowConfig\<close> computes has width \<open>\<le> 0\<close>, height \<open>\<le> 0\<close> or a \<^verbatim>\<open>NaN\<close> height returns
  normally, has closed the window that was open (\<^verbatim>\<open>coc#util#close_win\<close> on its id, and
  \<open>winid\<close> is \<open>0\<close> afterwards), and has not called \<^verbatim>\<open>coc#util#create_float_win\<close>.
\<close>

theorem bad_config_closes_without_window:
  assumes mode: "float_mode h = Some (mode, target, win_position)"
      and live: "\<not> isCancellationRequested h 237"
      and config: "fst (getWindowConfig h docs win_position s) = Some config"
      and bad: "js_le (width config) (Num 0) \<or> js_le (height config) (Num 0)
                \<or> isNaN (height config)"
  shows "fst (createPopup h docs highlights allowSelection s) = Inr ()
     \<and> winid (snd (createPopup h docs highlights allowSelection s)) = 0
     \<and> (winid s \<noteq> 0 \<longrightarrow>
          close_win (winid s)
            \<in> set (new_calls s (snd (createPopup h docs highlights allowSelection s))))
     \<and> filter is_create_float_win
          (new_calls s (snd (createPopup h docs highlights allowSelection s))) = []"
proof -
  define s2 where
    "s2 = emit (get_float_mode allowSelection (alignTop s) (pumAlignTop s))
            (s\<lparr>tokenSource := True\<rparr>)"
  define s3 where "s3 = s2\<lparr>targetBufnr := Some target\<rparr>"
  have t2: "trace s2 = trace s @ [get_float_mode allowSelection (alignTop s) (pumAlignTop s)]"
    by (simp add: s2_def emit_def)
  have w2: "winid s2 = winid s"
    by (simp add: s2_def emit_def)
  show ?thesis
  proof (cases "docs = [] \<or> list_all (\<lambda>d. length (content d) = 0) docs")
    case True
    then have eq: "createPopup h docs highlights allowSelection s = (Inr (), close h s2)"
      using mode live by (simp add: createPopup_def s2_def Let_def)
    show ?thesis
      using close_new_calls [OF t2, of h] by (simp add: eq close_winid w2)
  next
    case False
    obtain r s4 where g: "getWindowConfig h docs win_position s3 = (r, s4)"
      by (cases "getWindowConfig h docs win_position s3")
    have "fst (getWindowConfig h docs win_position s3)
            = fst (getWindowConfig h docs win_position s)"
      by (rule getWindowConfig_fst_cong) (simp_all add: s3_def s2_def emit_def)
    then have r: "r = Some config"
      using config g by simp
    have s4: "s4 = snd (getWindowConfig h docs win_position s3)"
      using g by simp
    have w4: "winid s4 = winid s"
      by (simp add: s4 getWindowConfig_fields s3_def w2)
    obtain cs where cs: "trace s4 = trace s3 @ cs" "filter is_create_float_win cs = []"
      using getWindowConfig_trace [of h docs win_position s3] s4 by blast
    have t4: "trace s4
                = trace s @ (get_float_mode allowSelection (alignTop s) (pumAlignTop s) # cs)"
      using cs t2 by (simp add: s3_def)
    have eq: "createPopup h docs highlights allowSelection s = (Inr (), close h s4)"
      using mode live False bad g r
      by (simp add: createPopup_def Let_def s2_def [symmetric] s3_def [symmetric])
    show ?thesis
      using close_new_calls [OF t4, of h] cs(2) by (simp add: eq close_winid w4)
  qed
qed

theorem bad_config_closes_without_window_witness:
  "float_mode (example_host\<lparr>FloatBuffer_getDimension := (\<lambda>docs w h. (Num 20, NaN))\<rparr>)
     = Some (''n'', 3, (Num 30, Num 0))
   \<and> \<not> isCancellationRequested
         (example_host\<lparr>FloatBuffer_getDimension := (\<lambda>docs w h. (Num 20, NaN))\<rparr>) 237
   \<and> fst (getWindowConfig
            (example_host\<lparr>FloatBuffer_getDimension := (\<lambda>docs w h. (Num 20, NaN))\<rparr>)
            example_docs (Num 30, Num 0) example_factory)
       = Some \<lparr> row = Num 5, col = Num 40, width = Num 20, height = NaN,
                relative = ''editor'' \<rparr>
   \<and> winid example_factory = 1001
   \<and> winid (snd (createPopup
        (example_host\<lparr>FloatBuffer_getDimension := (\<lambda>docs w h. (Num 20, NaN))\<rparr>)
        example_docs [] False example_factory)) = 0
   \<and> close_win 1001 \<in> set (new_calls example_factory
        (snd (createPopup
          (example_host\<lparr>FloatBuffer_getDimension := (\<lambda>docs w h. (Num 20, NaN))\<rparr>)
          example_docs [] False example_factory)))
   \<and> filter is_create_float_win (new_calls example_factory
        (snd (createPopup
          (example_host\<lparr>FloatBuffer_getDimension := (\<lambda>docs w h. (Num 20, NaN))\<rparr>)
          example_docs [] False example_factory))) = []"
proof -
  define h where
    "h = example_host\<lparr>FloatBuffer_getDimension := (\<lambda>docs w h. (Num 20, NaN))\<rparr>"
  define c where
    "c = \<lparr> row = Num 5, col = Num 40, width = Num 20, height = NaN, relative = ''editor'' \<rparr>"
  have m: "float_mode h = Some (''n'', 3, (Num 30, Num 0))"
    by (simp add: h_def example_host_def)
  have l: "\<not> isCancellationRequested h 237"
    by (simp add: h_def example_host_def)
  have g: "fst (getWindowConfig h example_docs (Num 30, Num 0) example_factory) = Some c"
    by (simp add: h_def c_def example_host_def example_factory_def example_env_def
        FloatingFactory3_new_def getWindowConfig_def factory_lines_def factory_columns_def
        js_or_def emit_def Let_def)
  have b: "js_le (width c) (Num 0) \<or> js_le (height c) (Num 0) \<or> isNaN (height c)"
    by (simp add: c_def)
  have w: "winid example_factory = 1001"
    by (simp add: example_factory_def)
  show ?thesis
    using bad_config_closes_without_window [OF m l g b, of "[]" False] m l g w
    unfolding h_def c_def by simp
qed

text \<open>
  C8. When the list of documents is empty or every document has empty content:
  \<^item> \<^verbatim>\<open>create\<close>, in any reachable state, returns normally, has closed the window that was
    open and has not called \<^verbatim>\<open>coc#util#create_float_win\<close>; where floating windows are
    supported it does so by calling \<^verbatim>\<open>close\<close> right after cancelling the debounced
    handler, and where they are not, no window is open and it only logs;
  \<^item> \<^verbatim>\<open>createPopup\<close>, once past its first guard (the editor answered the float mode, the
    token is not cancelled), does the same at its recheck.
\<close>

theorem empty_docs_close_without_popup:
  assumes empty: "docs = [] \<or> (\<forall>d \<in> set docs. content d = [])"
  shows "(factory_inv (supportedFloat h) s \<longrightarrow>
            fst (create h docs highlights allowSelection s) = Inr ()
          \<and> (supportedFloat h \<longrightarrow>
               snd (create h docs highlights allowSelection s)
                 = close h (emit onCursorMoved_cancel s))
          \<and> winid (snd (create h docs highlights allowSelection s)) = 0
          \<and> (winid s \<noteq> 0 \<longrightarrow>
               close_win (winid s)
                 \<in> set (new_calls s (snd (create h docs highlights allowSelection s))))
          \<and> filter is_create_float_win
               (new_calls s (snd (create h docs highlights allowSelection s))) = [])
       \<and> (float_mode h \<noteq> None \<and> \<not> isCancellationRequested h 237 \<longrightarrow>
            fst (createPopup h docs highlights allowSelection s) = Inr ()
          \<and> winid (snd (createPopup h docs highlights allowSelection s)) = 0
          \<and> (winid s \<noteq> 0 \<longrightarrow>
               close_win (winid s)
                 \<in> set (new_calls s (snd (createPopup h docs highlights allowSelection s))))
          \<and> filter is_create_float_win
               (new_calls s (snd (createPopup h docs highlights allowSelection s))) = [])"
proof -
  have e: "docs = [] \<or> list_all (\<lambda>d. length (content d) = 0) docs"
    using empty by (auto simp add: list_all_iff)
  have A: "fst (create h docs highlights allowSelection s) = Inr ()
          \<and> (supportedFloat h \<longrightarrow>
               snd (create h docs highlights allowSelection s)
                 = close h (emit onCursorMoved_cancel s))
          \<and> winid (snd (create h docs highlights allowSelection s)) = 0
          \<and> (winid s \<noteq> 0 \<longrightarrow>
               close_win (winid s)
                 \<in> set (new_calls s (snd (create h docs highlights allowSelection s))))
          \<and> filter is_create_float_win
               (new_calls s (snd (create h docs highlights allowSelection s))) = []"
    if inv: "factory_inv (supportedFloat h) s"
  proof (cases "supportedFloat h")
    case True
    then have oc: "onCursorMoved s"
      using inv by (simp add: factory_inv_def)
    have eq: "create h docs highlights allowSelection s
                = (Inr (), close h (emit onCursorMoved_cancel s))"
      using True oc e by (simp add: create_def Let_def)
    have t: "trace (emit onCursorMoved_cancel s) = trace s @ [onCursorMoved_cancel]"
      by (simp add: emit_def)
    show ?thesis
      using close_new_calls [OF t, of h] by (simp add: eq close_winid emit_fields)
  next
    case False
    then have w: "winid s = 0"
      using inv by (simp add: factory_inv_def)
    have eq: "create h docs highlights allowSelection s =
                (Inr (), emit (Log ''error'' ''Floating window & textprop not supported!'') s)"
      using False by (simp add: create_def)
    show ?thesis
      using False w by (simp add: eq emit_fields new_calls_def emit_def)
  qed
  have B: "fst (createPopup h docs highlights allowSelection s) = Inr ()
          \<and> winid (snd (createPopup h docs highlights allowSelection s)) = 0
          \<and> (winid s \<noteq> 0 \<longrightarrow>
               close_win (winid s)
                 \<in> set (new_calls s (snd (createPopup h docs highlights allowSelection s))))
          \<and> filter is_create_float_win
               (new_calls s (snd (createPopup h docs highlights allowSelection s))) = []"
    if reached: "float_mode h \<noteq> None" "\<not> isCancellationRequested h 237"
  proof -
    define s2 where
      "s2 = emit (get_float_mode allowSelection (alignTop s) (pumAlignTop s))
              (s\<lparr>tokenSource := True\<rparr>)"
    have t2: "trace s2 = trace s @ [get_float_mode allowSelection (alignTop s) (pumAlignTop s)]"
      by (simp add: s2_def emit_def)
    have w2: "winid s2 = winid s"
      by (simp add: s2_def emit_def)
    have eq: "createPopup h docs highlights allowSelection s = (Inr (), close h s2)"
      using reached e by (auto simp add: createPopup_def s2_def Let_def)
    show ?thesis
      using close_new_calls [OF t2, of h] by (simp add: eq close_winid w2)
  qed
  show ?thesis
    using A B by blast
qed

theorem empty_docs_close_without_popup_witness:
  "factory_inv (supportedFloat example_host) example_factory
   \<and> float_mode example_host \<noteq> None \<and> \<not> isCancellationRequested example_host 237
   \<and> winid example_factory = 1001
   \<and> winid (snd (create example_host [] [] False example_factory)) = 0
   \<and> close_win 1001
       \<in> set (new_calls example_factory (snd (create example_host [] [] False example_factory)))
   \<and> filter is_create_float_win
       (new_calls example_factory (snd (create example_host [] [] False example_factory))) = []
   \<and> winid (snd (createPopup example_host [] [] False example_factory)) = 0
   \<and> close_win 1001
       \<in> set (new_calls example_factory
                (snd (createPopup example_host [] [] False example_factory)))
   \<and> filter is_create_float_win
       (new_calls example_factory
          (snd (createPopup example_host [] [] False example_factory))) = []"
proof -
  have e: "([] :: Documentation list) = []
           \<or> (\<forall>d \<in> set ([] :: Documentation list). content d = [])"
    by simp
  have i: "factory_inv (supportedFloat example_host) example_factory"
    by (simp add: factory_inv_def example_host_def example_factory_def FloatingFactory3_new_def)
  have r: "float_mode example_host \<noteq> None \<and> \<not> isCancellationRequested example_host 237"
    by (simp add: example_host_def)
  have w: "winid example_factory = 1001"
    by (simp add: example_factory_def)
  show ?thesis
    using empty_docs_close_without_popup [OF e, of example_host example_factory "[]" False] i r w
    by simp
qed

end
